theory Spec2Isabelle
  imports
    Complex_Main
    "HOL-Library.Multiset"
    "HOL-Library.Product_Lexorder"
    "HOL-Library.List_Lexorder"
    "HOL-Library.Char_ord"
    "HOL-Library.Sublist"
begin

section \<open>Numeric cells\<close>

text \<open>
  A numeric cell of a pandas column is a float64 that may be NaN. The embedding idealises
  the finite doubles as exact reals and writes NaN as \<open>None\<close>; infinite values are not
  represented. Comparisons with NaN are false, arithmetic on NaN gives NaN, and a
  division by zero, which has no finite value in IEEE arithmetic (NaN for \<open>0/0\<close>, an
  infinity otherwise), gives \<open>None\<close>.
\<close>

type_synonym num = "real option"

definition isnan :: "num \<Rightarrow> bool" where
  "isnan x = (x = None)"

definition gt_num :: "num \<Rightarrow> real \<Rightarrow> bool" where
  "gt_num x c = (case x of None \<Rightarrow> False | Some v \<Rightarrow> c < v)"

definition ge_num :: "num \<Rightarrow> real \<Rightarrow> bool" where
  "ge_num x c = (case x of None \<Rightarrow> False | Some v \<Rightarrow> c \<le> v)"

definition le_num :: "num \<Rightarrow> num \<Rightarrow> bool" where
  "le_num x y = (case (x, y) of (Some a, Some b) \<Rightarrow> a \<le> b | _ \<Rightarrow> False)"

definition eq_num :: "num \<Rightarrow> real \<Rightarrow> bool" where
  "eq_num x c = (x = Some c)"

definition fmul :: "num \<Rightarrow> num \<Rightarrow> num" where
  "fmul x y = (case (x, y) of (Some a, Some b) \<Rightarrow> Some (a * b) | _ \<Rightarrow> None)"

definition fadd :: "num \<Rightarrow> num \<Rightarrow> num" where
  "fadd x y = (case (x, y) of (Some a, Some b) \<Rightarrow> Some (a + b) | _ \<Rightarrow> None)"

definition fdiv :: "num \<Rightarrow> num \<Rightarrow> num" where
  "fdiv x y = (case (x, y) of
       (Some a, Some b) \<Rightarrow> (if b = 0 then None else Some (a / b))
     | _ \<Rightarrow> None)"

text \<open>\<open>np.sum\<close> of an array: NaN as soon as one element is NaN, 0 on the empty array.\<close>

definition np_sum :: "num list \<Rightarrow> num" where
  "np_sum xs = foldl fadd (Some 0) xs"

section \<open>Survey rows\<close>

text \<open>
  A cell of a column that is not coerced to a number (the activity code \<open>PP04B_COD\<close>,
  every raw column before cleaning) holds a number, a string, or is missing. A row of
  the cleaned survey has its numeric columns as numeric cells, so the coercions
  \<open>pd.to_numeric(..., errors="coerce")\<close> that the analysis functions repeat on them
  change nothing, and a table always has the columns of the row type.
\<close>

datatype cell = Num real | Str string | NA

record eph_row =
  ANO4 :: num
  TRIMESTRE :: num
  AGLOMERADO :: num
  ESTADO :: num
  CH06 :: num
  PONDERA :: num
  P47T :: num
  PP04B_COD :: cell

text \<open>
  \<open>df.groupby(keys)\<close> with the defaults of pandas: a row whose key has a missing
  component belongs to no group, the groups come in increasing key order, and the rows
  of a group keep the order of the table.
\<close>

definition groupby :: "('r \<Rightarrow> 'k::linorder option) \<Rightarrow> 'r list \<Rightarrow> ('k \<times> 'r list) list" where
  "groupby key df =
     map (\<lambda>k. (k, filter (\<lambda>r. key r = Some k) df)) (sort (remdups (List.map_filter key df)))"

definition key3 :: "'a eph_row_scheme \<Rightarrow> (real \<times> real \<times> real) option" where
  "key3 r = (case (AGLOMERADO r, ANO4 r, TRIMESTRE r) of
       (Some a, Some y, Some t) \<Rightarrow> Some (a, y, t)
     | _ \<Rightarrow> None)"

definition key2 :: "'a eph_row_scheme \<Rightarrow> (real \<times> real) option" where
  "key2 r = (case (AGLOMERADO r, ANO4 r) of
       (Some a, Some y) \<Rightarrow> Some (a, y)
     | _ \<Rightarrow> None)"

section \<open>tasas.py: labour-force rates\<close>

record tasas =
  TA :: num
  TE :: num
  TD :: num

definition adultos :: "'a eph_row_scheme list \<Rightarrow> 'a eph_row_scheme list" where
  "adultos df = filter (\<lambda>r. ge_num (CH06 r) 18) df"

definition poblacion :: "'a eph_row_scheme list \<Rightarrow> nat" where
  "poblacion df = length (adultos df)"

definition ocupados :: "'a eph_row_scheme list \<Rightarrow> nat" where
  "ocupados df = length (filter (\<lambda>r. eq_num (ESTADO r) 1) (adultos df))"

definition desocupados :: "'a eph_row_scheme list \<Rightarrow> nat" where
  "desocupados df = length (filter (\<lambda>r. eq_num (ESTADO r) 2) (adultos df))"

definition pea :: "'a eph_row_scheme list \<Rightarrow> nat" where
  "pea df = ocupados df + desocupados df"

text \<open>
  The quotient of two counts. Without the guard of the caller a zero divisor would give
  no number (\<open>None\<close>), so the value 0 of a rate is the work of the guard alone.
\<close>

definition truediv :: "nat \<Rightarrow> nat \<Rightarrow> num" where
  "truediv a b = fdiv (Some (real a)) (Some (real b))"

definition calcular_tasas :: "'a eph_row_scheme list \<Rightarrow> tasas" where
  "calcular_tasas df =
     \<lparr> TA = (if poblacion df > 0 then truediv (pea df) (poblacion df) else Some 0),
       TE = (if poblacion df > 0 then truediv (ocupados df) (poblacion df) else Some 0),
       TD = (if pea df > 0 then truediv (desocupados df) (pea df) else Some 0) \<rparr>"

definition tasas_trimestrales ::
  "'a eph_row_scheme list \<Rightarrow> ((real \<times> real \<times> real) \<times> tasas) list" where
  "tasas_trimestrales df =
     map (\<lambda>(k, grupo). (k, calcular_tasas grupo)) (groupby key3 (adultos df))"

section \<open>ingresos.py: deflation and weighted mean\<close>

datatype error = IndexError | ValueError

record ipc_row =
  ANO4_ipc :: num
  TRIMESTRE_ipc :: num
  IPC_ipc :: num

record defl_row = eph_row +
  IPC :: num
  INGRESO_REAL :: num

text \<open>
  \<open>df.merge(ipc_df, how="left", on=["ANO4", "TRIMESTRE"])\<close>: every survey row, in
  order, once for each index row with the same key (in the order of the index table), or
  once with a missing \<open>IPC\<close> when no index row matches. pandas joins a missing key with a
  missing key, as the equality on \<open>num\<close> does.
\<close>

definition merge_row :: "ipc_row list \<Rightarrow> eph_row \<Rightarrow> (eph_row \<times> num) list" where
  "merge_row ipc_df r =
     (let ms = filter (\<lambda>i. ANO4_ipc i = ANO4 r \<and> TRIMESTRE_ipc i = TRIMESTRE r) ipc_df
      in if ms = [] then [(r, None)] else map (\<lambda>i. (r, IPC_ipc i)) ms)"

definition merge_left :: "eph_row list \<Rightarrow> ipc_row list \<Rightarrow> (eph_row \<times> num) list" where
  "merge_left df ipc_df = concat (map (merge_row ipc_df) df)"

definition con_ingreso_real :: "num \<Rightarrow> eph_row \<times> num \<Rightarrow> defl_row" where
  "con_ingreso_real ipc_base p =
     (case p of (r, ipc) \<Rightarrow>
       \<lparr> ANO4 = ANO4 r, TRIMESTRE = TRIMESTRE r, AGLOMERADO = AGLOMERADO r,
         ESTADO = ESTADO r, CH06 = CH06 r, PONDERA = PONDERA r, P47T = P47T r,
         PP04B_COD = PP04B_COD r, IPC = ipc,
         INGRESO_REAL = fmul (P47T r) (fdiv ipc_base ipc) \<rparr>)"

text \<open>
  \<open>deflactar_ingreso\<close>: the merge, then the index of the base period, read with
  \<open>.iloc[0]\<close> from the index rows of that period (an \<open>IndexError\<close> when there is none),
  then the real income of every merged row.
\<close>

definition deflactar_ingreso ::
  "eph_row list \<Rightarrow> ipc_row list \<Rightarrow> real \<Rightarrow> real \<Rightarrow> error + defl_row list" where
  "deflactar_ingreso df_eph ipc_df ano_base trimestre_base =
     (let df = merge_left df_eph ipc_df in
      case filter (\<lambda>i. eq_num (ANO4_ipc i) ano_base \<and> eq_num (TRIMESTRE_ipc i) trimestre_base)
             ipc_df of
        [] \<Rightarrow> Inl IndexError
      | i0 # _ \<Rightarrow> Inr (map (con_ingreso_real (IPC_ipc i0)) df))"

text \<open>Boolean indexing \<open>a[m]\<close> of an array by a mask of the same length.\<close>

definition mask_select :: "'a list \<Rightarrow> bool list \<Rightarrow> 'a list" where
  "mask_select a m = map fst (filter snd (zip a m))"

definition wmean :: "num list \<Rightarrow> num list \<Rightarrow> num" where
  "wmean x w =
     (let m = map2 (\<lambda>xi wi. \<not> isnan xi \<and> gt_num wi 0) x w in
      if True \<in> set m
      then fdiv (np_sum (map2 fmul (mask_select x m) (mask_select w m))) (np_sum (mask_select w m))
      else None)"

definition isin :: "num \<Rightarrow> real list \<Rightarrow> bool" where
  "isin x vs = (case x of None \<Rightarrow> False | Some v \<Rightarrow> v \<in> set vs)"

definition filtrar_aglomerados ::
  "real list option \<Rightarrow> 'a eph_row_scheme list \<Rightarrow> 'a eph_row_scheme list" where
  "filtrar_aglomerados aglomerados_target df =
     (case aglomerados_target of
        None \<Rightarrow> df
      | Some vs \<Rightarrow> filter (\<lambda>r. isin (AGLOMERADO r) vs) df)"



definition ingreso_promedio_por_aglomerado ::
  "defl_row list \<Rightarrow> real list option \<Rightarrow> (real \<times> num) list" where
  "ingreso_promedio_por_aglomerado df aglomerados_target =
     map (\<lambda>(k, t). (k, wmean (map INGRESO_REAL t) (map PONDERA t)))
       (groupby AGLOMERADO (filtrar_aglomerados aglomerados_target df))"

definition ingreso_promedio_trimestral_por_aglomerado ::
  "defl_row list \<Rightarrow> real list option \<Rightarrow> ((real \<times> real \<times> real) \<times> num) list" where
  "ingreso_promedio_trimestral_por_aglomerado df aglomerados_target =
     map (\<lambda>(k, t). (k, wmean (map INGRESO_REAL t) (map PONDERA t)))
       (groupby key3 (filtrar_aglomerados aglomerados_target df))"

section \<open>pandas order statistics\<close>

text \<open>
  \<open>Series.quantile(q)\<close> for \<open>0 \<le> q \<le> 1\<close> (every call of the program passes a constant
  in that range): missing values are skipped, the result is missing on an empty series,
  otherwise it is the linear interpolation between the two order statistics around the
  position \<open>(n - 1) * q\<close> of the sorted values. \<open>Series.median()\<close> is the middle order
  statistic, or the mean of the two middle ones.
\<close>

definition present :: "num list \<Rightarrow> real list" where
  "present xs = List.map_filter id xs"

definition interpolar :: "real list \<Rightarrow> real \<Rightarrow> real" where
  "interpolar s h =
     (let lo = nat \<lfloor>h\<rfloor>;
          hi = min (lo + 1) (length s - 1)
      in s ! lo + (s ! hi - s ! lo) * (h - real lo))"

definition quantile_sorted :: "real list \<Rightarrow> real \<Rightarrow> real" where
  "quantile_sorted s q = interpolar s ((real (length s) - 1) * q)"

definition pd_quantile :: "num list \<Rightarrow> real \<Rightarrow> num" where
  "pd_quantile xs q =
     (let vs = present xs in if vs = [] then None else Some (quantile_sorted (sort vs) q))"

definition median_sorted :: "real list \<Rightarrow> real" where
  "median_sorted s =
     (let n = length s in
      if odd n then s ! (n div 2) else (s ! (n div 2 - 1) + s ! (n div 2)) / 2)"

definition pd_median :: "num list \<Rightarrow> num" where
  "pd_median xs =
     (let vs = present xs in if vs = [] then None else Some (median_sorted (sort vs)))"

section \<open>graficos_ingresos.py: univariate income summary\<close>

record univ =
  MEDIA :: num
  MEDIANA :: num
  Q25 :: num
  Q75 :: num

text \<open>\<open>DataFrame({"x": x, "w": w}).dropna()\<close>: the rows in which both cells are present.\<close>

definition dropna :: "(num \<times> num) list \<Rightarrow> (real \<times> real) list" where
  "dropna rows =
     List.map_filter (\<lambda>(xi, wi). case (xi, wi) of (Some a, Some b) \<Rightarrow> Some (a, b) | _ \<Rightarrow> None) rows"

text \<open>\<open>astype(int)\<close> on a finite float truncates towards zero.\<close>

definition astype_int :: "real \<Rightarrow> int" where
  "astype_int v = (if 0 \<le> v then \<lfloor>v\<rfloor> else \<lceil>v\<rceil>)"

text \<open>
  \<open>dfp.loc[dfp.index.repeat(dfp["w"].astype(int))]["x"]\<close>: the labels of \<open>dfp\<close> are
  unique, so every row comes as often as its truncated weight says, in the order of the
  table.
\<close>

definition repetir :: "(real \<times> real) list \<Rightarrow> real list" where
  "repetir dfp = concat (map (\<lambda>(xi, wi). replicate (nat (astype_int wi)) xi) dfp)"

text \<open>The body of the loop of \<open>calcular_univariado\<close>, for one group.\<close>

definition univariado_grupo :: "'a defl_row_scheme list \<Rightarrow> univ" where
  "univariado_grupo grupo =
     (let x = map INGRESO_REAL grupo;
          w = map PONDERA grupo;
          mask = map2 (\<lambda>xi wi. \<not> isnan xi \<and> gt_num wi 0) x w;
          media = (if length (filter id mask) = 0 then None
                   else fdiv (np_sum (map2 fmul (mask_select x mask) (mask_select w mask)))
                          (np_sum (mask_select w mask)));
          dfp = filter (\<lambda>(xi, wi). 0 < wi) (dropna (zip x w))
      in if dfp \<noteq> []
         then (let dfp_rep = map Some (repetir dfp)
               in \<lparr> MEDIA = media, MEDIANA = pd_median dfp_rep,
                    Q25 = pd_quantile dfp_rep (25 / 100), Q75 = pd_quantile dfp_rep (75 / 100) \<rparr>)
         else \<lparr> MEDIA = media, MEDIANA = None, Q25 = None, Q75 = None \<rparr>)"

text \<open>
  The groups are keyed by the region and the string \<open>PERIODO\<close>, the year and the quarter
  formatted by \<open>astype(str)\<close>; the formatting of a cell is the parameter \<open>str_of\<close>.
\<close>

definition key_periodo :: "(num \<Rightarrow> string) \<Rightarrow> 'a eph_row_scheme \<Rightarrow> (real \<times> string) option" where
  "key_periodo str_of r =
     (case AGLOMERADO r of
        None \<Rightarrow> None
      | Some a \<Rightarrow> Some (a, str_of (ANO4 r) @ ''-T'' @ str_of (TRIMESTRE r)))"

definition calcular_univariado ::
  "(num \<Rightarrow> string) \<Rightarrow> 'a defl_row_scheme list \<Rightarrow> ((real \<times> string) \<times> univ) list" where
  "calcular_univariado str_of df_ocup =
     map (\<lambda>(k, grupo). (k, univariado_grupo grupo)) (groupby (key_periodo str_of) df_ocup)"

section \<open>The weighted statistics as the specification words them\<close>

text \<open>
  The eligible records of a group: the pairs of income and weight of the rows whose
  income is present and whose weight is present and strictly positive.
\<close>

definition elegible :: "'a defl_row_scheme \<Rightarrow> bool" where
  "elegible r = (\<not> isnan (INGRESO_REAL r) \<and> gt_num (PONDERA r) 0)"

definition elegibles :: "'a defl_row_scheme list \<Rightarrow> (real \<times> real) list" where
  "elegibles t =
     List.map_filter (\<lambda>r. case (INGRESO_REAL r, PONDERA r) of
         (Some a, Some b) \<Rightarrow> (if 0 < b then Some (a, b) else None)
       | _ \<Rightarrow> None) t"

text \<open>The weighted mean \<open>\<Sum>(x\<^sub>i * w\<^sub>i) / \<Sum>(w\<^sub>i)\<close>, missing on the empty set.\<close>

definition media_ponderada :: "(real \<times> real) list \<Rightarrow> num" where
  "media_ponderada e =
     (if e = [] then None
      else Some (sum_list (map (\<lambda>p. fst p * snd p) e) / sum_list (map snd e)))"

text \<open>Python's \<open>round\<close>: to the nearest integer, a tie to the even one.\<close>

definition py_round :: "real \<Rightarrow> int" where
  "py_round v =
     (let f = \<lfloor>v\<rfloor>; d = v - real_of_int f
      in if d < 1 / 2 then f else if 1 / 2 < d then f + 1 else if even f then f else f + 1)"

text \<open>
  Weight as repetition: the multiset in which every eligible record stands as often as
  its weight, made an integer by \<open>entero\<close>, says; and the quantiles of a multiset.
\<close>

definition expandir :: "(real \<Rightarrow> int) \<Rightarrow> (real \<times> real) list \<Rightarrow> real multiset" where
  "expandir entero e = sum_list (map (\<lambda>p. replicate_mset (nat (entero (snd p))) (fst p)) e)"

definition cuantil_mset :: "real multiset \<Rightarrow> real \<Rightarrow> num" where
  "cuantil_mset M q =
     (if M = {#} then None else Some (quantile_sorted (sorted_list_of_multiset M) q))"

definition mediana_mset :: "real multiset \<Rightarrow> num" where
  "mediana_mset M =
     (if M = {#} then None else Some (median_sorted (sorted_list_of_multiset M)))"

section \<open>boxplots.py: cleaning for the income distribution\<close>

definition lower_char :: "char \<Rightarrow> char" where
  "lower_char c =
     (case map_of (zip ''ABCDEFGHIJKLMNOPQRSTUVWXYZ'' ''abcdefghijklmnopqrstuvwxyz'') c of
        None \<Rightarrow> c
      | Some l \<Rightarrow> l)"

definition lower :: "string \<Rightarrow> string" where
  "lower s = map lower_char s"

fun contains :: "string \<Rightarrow> string \<Rightarrow> bool" where
  "contains p [] = (p = [])"
| "contains p (c # cs) = (prefix p (c # cs) \<or> contains p cs)"

text \<open>
  \<open>limpiar_boxplot\<close> on a table with the column names \<open>columns\<close>. The first column
  whose lower-cased name contains both "ingreso" and "real" is renamed to
  \<open>INGRESO_REAL\<close>; without such a column the function raises. When the renaming leaves
  more than one column with the label \<open>INGRESO_REAL\<close>, the first filter raises, as
  \<open>df["INGRESO_REAL"]\<close> is then no single column. Otherwise the field \<open>INGRESO_REAL\<close>
  of a row holds the cell of that column.
\<close>

definition columnas_ingreso_real :: "string list \<Rightarrow> string list" where
  "columnas_ingreso_real columns =
     filter (\<lambda>c. contains ''ingreso'' (lower c) \<and> contains ''real'' (lower c)) columns"

definition rename_columna :: "string \<Rightarrow> string \<Rightarrow> string list \<Rightarrow> string list" where
  "rename_columna viejo nuevo columns = map (\<lambda>c. if c = viejo then nuevo else c) columns"

definition etiqueta_unica :: "string \<Rightarrow> string list \<Rightarrow> bool" where
  "etiqueta_unica c columns = (length (filter (\<lambda>x. x = c) columns) = 1)"

definition limpiar_boxplot :: "string list \<Rightarrow> defl_row list \<Rightarrow> error + defl_row list" where
  "limpiar_boxplot columns df =
     (case columnas_ingreso_real columns of
        [] \<Rightarrow> Inl ValueError
      | c # _ \<Rightarrow>
          (let cols = rename_columna c ''INGRESO_REAL'' columns
           in if \<not> etiqueta_unica ''INGRESO_REAL'' cols then Inl ValueError
              else (let df1 = filter (\<lambda>r. gt_num (INGRESO_REAL r) 0) df;
                        df2 = filter (\<lambda>r. gt_num (PONDERA r) 0) df1;
                        q995 = pd_quantile (map INGRESO_REAL df2) (995 / 1000);
                        df3 = filter (\<lambda>r. le_num (INGRESO_REAL r) q995) df2;
                        df4 = (if ''CH06'' \<in> set cols
                               then filter (\<lambda>r. ge_num (CH06 r) 18) df3 else df3)
                    in Inr df4)))"


section \<open>te_ramas_participacion.py: branches and employment shares\<close>

text \<open>
  \<open>int(pp04b_cod)\<close>: a float is truncated towards zero; a string is parsed by Python's
  \<open>int\<close>, the parameter \<open>int_str\<close>, which gives \<open>None\<close> where Python raises
  \<open>ValueError\<close>.
\<close>

definition py_int :: "(string \<Rightarrow> int option) \<Rightarrow> cell \<Rightarrow> int option" where
  "py_int int_str c =
     (case c of Num v \<Rightarrow> Some (astype_int v) | Str s \<Rightarrow> int_str s | NA \<Rightarrow> None)"

definition clasificar_rama :: "(string \<Rightarrow> int option) \<Rightarrow> cell \<Rightarrow> string option" where
  "clasificar_rama int_str pp04b_cod =
     (if pp04b_cod = NA then None
      else case py_int int_str pp04b_cod of
             None \<Rightarrow> None
           | Some c \<Rightarrow>
               if 1500 \<le> c \<and> c < 4000 then Some ''Industria''
               else if 5000 \<le> c \<and> c < 6000 then Some ''Turismo''
               else if 9100 \<le> c \<and> c < 9500 then Some ''Turismo''
               else None)"

definition agregar_columna_rama ::
  "(string \<Rightarrow> int option) \<Rightarrow> eph_row list \<Rightarrow> (eph_row \<times> string option) list" where
  "agregar_columna_rama int_str df = map (\<lambda>r. (r, clasificar_rama int_str (PP04B_COD r))) df"

text \<open>\<open>groupby(...)["PONDERA"].sum()\<close> skips missing weights.\<close>

definition sum_skipna :: "num list \<Rightarrow> real" where
  "sum_skipna ws = sum_list (present ws)"

record part_row =
  AGLOMERADO_p :: real
  ANO4_p :: real
  RAMA :: string
  OCUPADOS_RAMA :: real
  OCUPADOS_TOTALES :: num
  PART_RAMA :: num

definition key_rama :: "eph_row \<times> string option \<Rightarrow> (real \<times> real \<times> string) option" where
  "key_rama p =
     (case (AGLOMERADO (fst p), ANO4 (fst p), snd p) of
        (Some a, Some y, Some b) \<Rightarrow> Some (a, y, b)
      | _ \<Rightarrow> None)"

definition ocupados_rama ::
  "(string \<Rightarrow> int option) \<Rightarrow> eph_row list \<Rightarrow> real list option \<Rightarrow> real
     \<Rightarrow> (eph_row \<times> string option) list" where
  "ocupados_rama int_str df aglos_target edad_min =
     agregar_columna_rama int_str
       (filter (\<lambda>r. eq_num (ESTADO r) 1)
          (filter (\<lambda>r. ge_num (CH06 r) edad_min) (filtrar_aglomerados aglos_target df)))"

text \<open>
  \<open>num.merge(ocup_total, on=["AGLOMERADO", "ANO4"], how="left")\<close> for one row of the
  numerator, with the share computed on the merged row.
\<close>

definition merge_total ::
  "((real \<times> real) \<times> real) list \<Rightarrow> (real \<times> real \<times> string) \<times> real \<Rightarrow> part_row list" where
  "merge_total ocup_total n =
     (case n of ((a, y, b), s) \<Rightarrow>
        (let ms = filter (\<lambda>kt. fst kt = (a, y)) ocup_total
         in if ms = []
            then [\<lparr> AGLOMERADO_p = a, ANO4_p = y, RAMA = b, OCUPADOS_RAMA = s,
                    OCUPADOS_TOTALES = None, PART_RAMA = fdiv (Some s) None \<rparr>]
            else map (\<lambda>kt. \<lparr> AGLOMERADO_p = a, ANO4_p = y, RAMA = b, OCUPADOS_RAMA = s,
                    OCUPADOS_TOTALES = Some (snd kt),
                    PART_RAMA = fdiv (Some s) (Some (snd kt)) \<rparr>) ms))"

definition suma_pondera ::
  "('k \<times> (eph_row \<times> string option) list) list \<Rightarrow> ('k \<times> real) list" where
  "suma_pondera groups = map (\<lambda>kg. (fst kg, sum_skipna (map (PONDERA \<circ> fst) (snd kg)))) groups"

definition participacion_empleo_por_rama ::
  "(string \<Rightarrow> int option) \<Rightarrow> eph_row list \<Rightarrow> real list option \<Rightarrow> real \<Rightarrow> part_row list" where
  "participacion_empleo_por_rama int_str df aglos_target edad_min =
     (let df_ocup = ocupados_rama int_str df aglos_target edad_min;
          ocup_total = suma_pondera (groupby (key2 \<circ> fst) df_ocup);
          df_ocup_rama = filter (\<lambda>p. snd p \<noteq> None) df_ocup;
          num = suma_pondera (groupby key_rama df_ocup_rama)
      in concat (map (merge_total ocup_total) num))"

section \<open>cleaning.py: the record normaliser\<close>















section \<open>Example data\<close>

definition inactivo :: eph_row where
  "inactivo = \<lparr> ANO4 = Some 2024, TRIMESTRE = Some 1, AGLOMERADO = Some 31, ESTADO = Some 3,
      CH06 = Some 40, PONDERA = Some 100, P47T = None, PP04B_COD = NA \<rparr>"

definition ocupado_1000 :: eph_row where
  "ocupado_1000 = \<lparr> ANO4 = Some 2024, TRIMESTRE = Some 1, AGLOMERADO = Some 31, ESTADO = Some 1,
      CH06 = Some 20, PONDERA = Some 2, P47T = Some 1000, PP04B_COD = Num 2000 \<rparr>"

definition ipc_2024_1 :: ipc_row where
  "ipc_2024_1 = \<lparr> ANO4_ipc = Some 2024, TRIMESTRE_ipc = Some 1, IPC_ipc = Some 100 \<rparr>"

definition ipc_cero :: ipc_row where
  "ipc_cero = \<lparr> ANO4_ipc = Some 2024, TRIMESTRE_ipc = Some 1, IPC_ipc = Some 0 \<rparr>"


definition fila :: "real \<Rightarrow> real \<Rightarrow> real \<Rightarrow> defl_row" where
  "fila edad pondera ingreso =
     \<lparr> ANO4 = Some 2024, TRIMESTRE = Some 1, AGLOMERADO = Some 31, ESTADO = Some 1,
       CH06 = Some edad, PONDERA = Some pondera, P47T = Some ingreso, PP04B_COD = NA,
       IPC = Some 100, INGRESO_REAL = Some ingreso \<rparr>"


text \<open>
  For the statement of the participation closure: a weight that is not negative (a
  missing one counts, being skipped by the sums), the employed records of one region and
  year, and the rows of the result for one region and year.
\<close>

definition no_negativo :: "num \<Rightarrow> bool" where
  "no_negativo x = (case x of None \<Rightarrow> True | Some v \<Rightarrow> 0 \<le> v)"

definition ocupados_de ::
  "(string \<Rightarrow> int option) \<Rightarrow> eph_row list \<Rightarrow> real list option \<Rightarrow> real \<Rightarrow> real \<Rightarrow> real
     \<Rightarrow> (eph_row \<times> string option) list" where
  "ocupados_de int_str df aglos_target edad_min a y =
     filter (\<lambda>p. key2 (fst p) = Some (a, y)) (ocupados_rama int_str df aglos_target edad_min)"

definition filas_de :: "real \<Rightarrow> real \<Rightarrow> part_row list \<Rightarrow> part_row list" where
  "filas_de a y out = filter (\<lambda>r. AGLOMERADO_p r = a \<and> ANO4_p r = y) out"

definition ocupado_rama :: "real \<Rightarrow> eph_row" where
  "ocupado_rama codigo =
     \<lparr> ANO4 = Some 2024, TRIMESTRE = Some 1, AGLOMERADO = Some 31, ESTADO = Some 1,
       CH06 = Some 30, PONDERA = Some 1, P47T = Some 1000, PP04B_COD = Num codigo \<rparr>"

text \<open>The weight a record adds to a sum of \<open>PONDERA\<close> that skips the missing cells.\<close>

definition peso :: "eph_row \<times> string option \<Rightarrow> real" where
  "peso p = (case PONDERA (fst p) of None \<Rightarrow> 0 | Some w \<Rightarrow> w)"

definition tres :: "eph_row list" where
  "tres = [ocupado_rama 2000, ocupado_rama 5500, ocupado_rama 9999]"

definition ocupado_peso :: "real \<Rightarrow> real \<Rightarrow> eph_row" where
  "ocupado_peso codigo w =
     \<lparr> ANO4 = Some 2024, TRIMESTRE = Some 1, AGLOMERADO = Some 31, ESTADO = Some 1,
       CH06 = Some 30, PONDERA = Some w, P47T = Some 1000, PP04B_COD = Num codigo \<rparr>"

definition peso_negativo :: "eph_row list" where
  "peso_negativo = [ocupado_peso 2000 2, ocupado_peso 9999 (- 1)]"



section \<open>Properties of the labour-force rates\<close>

lemma groupby_keys: "map fst (groupby key df) = sort (remdups (List.map_filter key df))"
  by (simp add: groupby_def comp_def)

lemma groupby_group:
  "(k, g) \<in> set (groupby key df) \<Longrightarrow> g = filter (\<lambda>r. key r = Some k) df"
  by (auto simp: groupby_def)

text \<open>
  C3. For every table handed to \<open>calcular_tasas\<close>, and so for every (region, year,
  quarter) group of the 18+ cohort in \<open>tasas_trimestrales\<close>: when the adult population
  is 0 the activity rate and the employment rate are the number 0, and when employed plus
  unemployed is 0 the unemployment rate is the number 0; none of them is missing.
\<close>

theorem tasas_zero_denominator:
  "(poblacion df = 0 \<longrightarrow> TA (calcular_tasas df) = Some 0 \<and> TE (calcular_tasas df) = Some 0)
   \<and> (pea df = 0 \<longrightarrow> TD (calcular_tasas df) = Some 0)
   \<and> (\<forall>(k, t) \<in> set (tasas_trimestrales df).
        \<exists>grupo. (k, grupo) \<in> set (groupby key3 (adultos df)) \<and> t = calcular_tasas grupo
          \<and> (poblacion grupo = 0 \<longrightarrow> TA t = Some 0 \<and> TE t = Some 0)
          \<and> (pea grupo = 0 \<longrightarrow> TD t = Some 0))"
  by (auto simp: calcular_tasas_def tasas_trimestrales_def)

theorem tasas_zero_denominator_witness:
  "poblacion ([] :: eph_row list) = 0
   \<and> TA (calcular_tasas ([] :: eph_row list)) = Some 0
   \<and> TE (calcular_tasas ([] :: eph_row list)) = Some 0
   \<and> pea [inactivo] = 0
   \<and> TD (calcular_tasas [inactivo]) = Some 0"
  using tasas_zero_denominator [of "[] :: eph_row list"] tasas_zero_denominator [of "[inactivo]"]
  by (simp add: poblacion_def pea_def ocupados_def desocupados_def adultos_def inactivo_def
        ge_num_def eq_num_def)

section \<open>Properties of the deflator\<close>

lemma fmul_ratio_one: "v \<noteq> 0 \<Longrightarrow> fmul x (fdiv (Some v) (Some v)) = x"
  by (cases x) (simp_all add: fmul_def fdiv_def)

lemma merge_left_iff:
  "(r, ipc) \<in> set (merge_left df ipc_df) \<longleftrightarrow>
     r \<in> set df \<and>
     (if filter (\<lambda>i. ANO4_ipc i = ANO4 r \<and> TRIMESTRE_ipc i = TRIMESTRE r) ipc_df = []
      then ipc = None
      else ipc \<in> IPC_ipc ` set (filter (\<lambda>i. ANO4_ipc i = ANO4 r \<and> TRIMESTRE_ipc i = TRIMESTRE r) ipc_df))"
  by (auto simp: merge_left_def merge_row_def Let_def split: if_splits)

lemma truncate_con_ingreso_real: "eph_row.truncate (con_ingreso_real b (r, ipc)) = r"
  by (simp add: con_ingreso_real_def eph_row.truncate_def)

text \<open>
  C4, as the code has it. When the index rows of the base period all carry one index
  value that is present and not zero (in particular when that period has exactly one
  such row), the deflation returns a table in which every row of the base period has a
  real income equal to its nominal income (both missing when the nominal income is
  missing), and every survey row is represented in the result.
\<close>

theorem deflactar_periodo_base:
  assumes ent: "\<exists>i \<in> set ipc_df. ANO4_ipc i = Some ano_base \<and> TRIMESTRE_ipc i = Some trimestre_base"
    and val: "\<forall>i \<in> set ipc_df. ANO4_ipc i = Some ano_base \<and> TRIMESTRE_ipc i = Some trimestre_base
                \<longrightarrow> IPC_ipc i = Some v"
    and nz: "v \<noteq> 0"
  shows "\<exists>out. deflactar_ingreso df_eph ipc_df ano_base trimestre_base = Inr out
           \<and> (\<forall>d \<in> set out. ANO4 d = Some ano_base \<and> TRIMESTRE d = Some trimestre_base
                 \<longrightarrow> IPC d = Some v \<and> INGRESO_REAL d = P47T d)
           \<and> (\<forall>r \<in> set df_eph. \<exists>d \<in> set out. eph_row.truncate d = r)"
proof -
  let ?base = "filter (\<lambda>i. eq_num (ANO4_ipc i) ano_base \<and> eq_num (TRIMESTRE_ipc i) trimestre_base) ipc_df"
  from ent have "?base \<noteq> []"
    by (auto simp: filter_empty_conv eq_num_def)
  then obtain i0 rest where base: "?base = i0 # rest"
    by (cases ?base) auto
  then have "i0 \<in> set ?base" by simp
  then have i0: "IPC_ipc i0 = Some v"
    using val by (auto simp: eq_num_def)
  let ?out = "map (con_ingreso_real (Some v)) (merge_left df_eph ipc_df)"
  have res: "deflactar_ingreso df_eph ipc_df ano_base trimestre_base = Inr ?out"
    by (simp add: deflactar_ingreso_def base i0)
  have same: "IPC d = Some v \<and> INGRESO_REAL d = P47T d"
    if d: "d \<in> set ?out" and per: "ANO4 d = Some ano_base \<and> TRIMESTRE d = Some trimestre_base" for d
  proof -
    from d obtain r ipc where p: "(r, ipc) \<in> set (merge_left df_eph ipc_df)"
      and dd: "d = con_ingreso_real (Some v) (r, ipc)" by auto
    from per dd have rper: "ANO4 r = Some ano_base" "TRIMESTRE r = Some trimestre_base"
      by (simp_all add: con_ingreso_real_def)
    let ?ms = "filter (\<lambda>i. ANO4_ipc i = ANO4 r \<and> TRIMESTRE_ipc i = TRIMESTRE r) ipc_df"
    from ent rper have "?ms \<noteq> []"
      by (auto simp: filter_empty_conv)
    with p have "\<exists>i \<in> set ?ms. ipc = IPC_ipc i"
      unfolding merge_left_iff by auto
    with val rper have "ipc = Some v" by auto
    with dd nz show ?thesis
      by (simp add: con_ingreso_real_def fmul_ratio_one)
  qed
  have all: "\<exists>d \<in> set ?out. eph_row.truncate d = r" if r: "r \<in> set df_eph" for r
  proof -
    have "\<exists>ipc. (r, ipc) \<in> set (merge_left df_eph ipc_df)"
      unfolding merge_left_iff using r
      by (cases "filter (\<lambda>i. ANO4_ipc i = ANO4 r \<and> TRIMESTRE_ipc i = TRIMESTRE r) ipc_df") auto
    then obtain ipc where "(r, ipc) \<in> set (merge_left df_eph ipc_df)" ..
    then have "con_ingreso_real (Some v) (r, ipc) \<in> set ?out" by auto
    then show ?thesis
      using truncate_con_ingreso_real by blast
  qed
  from res same all show ?thesis by blast
qed

theorem deflactar_periodo_base_witness:
  "deflactar_ingreso [ocupado_1000] [ipc_2024_1] 2024 1 =
     Inr [\<lparr> ANO4 = Some 2024, TRIMESTRE = Some 1, AGLOMERADO = Some 31, ESTADO = Some 1,
            CH06 = Some 20, PONDERA = Some 2, P47T = Some 1000, PP04B_COD = Num 2000,
            IPC = Some 100, INGRESO_REAL = Some 1000 \<rparr>]"
  using deflactar_periodo_base [of "[ipc_2024_1]" 2024 1 100 "[ocupado_1000]"]
  by (simp add: ipc_2024_1_def ocupado_1000_def deflactar_ingreso_def merge_left_def merge_row_def
        con_ingreso_real_def eq_num_def fmul_def fdiv_def)

text \<open>
  C4 as it is stated fails where the index row of the period exists with the value 0:
  the ratio \<open>0/0\<close> is no number, and the real income of a record with nominal income
  1000 in the base period is missing.
\<close>

theorem deflactar_indice_cero_counterexample:
  "deflactar_ingreso [ocupado_1000] [ipc_cero] 2024 1 =
     Inr [\<lparr> ANO4 = Some 2024, TRIMESTRE = Some 1, AGLOMERADO = Some 31, ESTADO = Some 1,
            CH06 = Some 20, PONDERA = Some 2, P47T = Some 1000, PP04B_COD = Num 2000,
            IPC = Some 0, INGRESO_REAL = None \<rparr>]
   \<and> P47T ocupado_1000 = Some 1000"
  by (simp add: ipc_cero_def ocupado_1000_def deflactar_ingreso_def merge_left_def merge_row_def
        con_ingreso_real_def eq_num_def fmul_def fdiv_def)

text \<open>
  C5. When no row of the index table has the base year and the base quarter, the
  deflation returns no table: it fails with the \<open>IndexError\<close> of \<open>.iloc[0]\<close>.
\<close>

theorem deflactar_base_ausente:
  assumes "\<forall>i \<in> set ipc_df. \<not> (ANO4_ipc i = Some ano_base \<and> TRIMESTRE_ipc i = Some trimestre_base)"
  shows "deflactar_ingreso df_eph ipc_df ano_base trimestre_base = Inl IndexError"
proof -
  have "filter (\<lambda>i. eq_num (ANO4_ipc i) ano_base \<and> eq_num (TRIMESTRE_ipc i) trimestre_base) ipc_df = []"
    using assms by (auto simp: filter_empty_conv eq_num_def)
  then show ?thesis
    by (simp add: deflactar_ingreso_def)
qed

theorem deflactar_base_ausente_witness:
  "ANO4_ipc ipc_2024_1 \<noteq> Some 2025
   \<and> deflactar_ingreso [ocupado_1000] [ipc_2024_1] 2025 2 = Inl IndexError"
  using deflactar_base_ausente [of "[ipc_2024_1]" 2025 2 "[ocupado_1000]"]
  by (simp add: ipc_2024_1_def)

section \<open>Properties of the branch classifier\<close>

lemma astype_int_ge: "0 < n \<Longrightarrow> (n \<le> astype_int c) = (real_of_int n \<le> c)"
  by (auto simp: astype_int_def le_floor_iff le_ceiling_iff)

lemma astype_int_less: "0 < n \<Longrightarrow> (astype_int c < n) = (c < real_of_int n)"
  by (auto simp: astype_int_def floor_less_iff ceiling_less_iff)

text \<open>
  C7. A numeric activity code \<open>c\<close> is Industry exactly when \<open>1500 \<le> c < 4000\<close>, Tourism
  exactly when \<open>5000 \<le> c < 6000\<close> or \<open>9100 \<le> c < 9500\<close>, and unclassified otherwise; so
  4000 is not Industry, 5999 is Tourism and 6000 is not. A missing code is unclassified,
  and a string code is classified as the integer it parses to, or unclassified when it
  does not parse.
\<close>

theorem clasificar_rama_rangos:
  "(clasificar_rama int_str (Num c) = Some ''Industria'' \<longleftrightarrow> 1500 \<le> c \<and> c < 4000)
   \<and> (clasificar_rama int_str (Num c) = Some ''Turismo''
        \<longleftrightarrow> (5000 \<le> c \<and> c < 6000) \<or> (9100 \<le> c \<and> c < 9500))
   \<and> (clasificar_rama int_str (Num c) = None
        \<longleftrightarrow> \<not> (1500 \<le> c \<and> c < 4000) \<and> \<not> (5000 \<le> c \<and> c < 6000) \<and> \<not> (9100 \<le> c \<and> c < 9500))
   \<and> clasificar_rama int_str (Num 4000) = None
   \<and> clasificar_rama int_str (Num 5999) = Some ''Turismo''
   \<and> clasificar_rama int_str (Num 6000) = None
   \<and> clasificar_rama int_str NA = None
   \<and> clasificar_rama int_str (Str s) =
        (case int_str s of None \<Rightarrow> None | Some n \<Rightarrow> clasificar_rama int_str (Num (real_of_int n)))"
proof -
  have r: "clasificar_rama int_str (Num v) =
      (if 1500 \<le> v \<and> v < 4000 then Some ''Industria''
       else if 5000 \<le> v \<and> v < 6000 then Some ''Turismo''
       else if 9100 \<le> v \<and> v < 9500 then Some ''Turismo'' else None)" for v
    using astype_int_ge [of 1500 v] astype_int_less [of 4000 v]
      astype_int_ge [of 5000 v] astype_int_less [of 6000 v]
      astype_int_ge [of 9100 v] astype_int_less [of 9500 v]
    by (simp add: clasificar_rama_def py_int_def)
  have i: "astype_int (real_of_int n) = n" for n
    by (simp add: astype_int_def)
  have s: "clasificar_rama int_str (Str s) =
        (case int_str s of None \<Rightarrow> None | Some n \<Rightarrow> clasificar_rama int_str (Num (real_of_int n)))"
    by (simp add: clasificar_rama_def py_int_def i split: option.splits)
  have n: "clasificar_rama int_str NA = None"
    by (simp add: clasificar_rama_def)
  show ?thesis
    by (intro conjI s n) (simp_all add: r)
qed

theorem clasificar_rama_rangos_witness:
  "clasificar_rama (\<lambda>s. None) (Num 1500) = Some ''Industria''
   \<and> clasificar_rama (\<lambda>s. None) (Num (39995 / 10)) = Some ''Industria''
   \<and> clasificar_rama (\<lambda>s. None) (Num 9100) = Some ''Turismo''
   \<and> clasificar_rama (\<lambda>s. None) (Num 9500) = None
   \<and> clasificar_rama (\<lambda>s. None) (Str ''x'') = None"
  using clasificar_rama_rangos [of "\<lambda>s. None" 1500 "''x''"]
    clasificar_rama_rangos [of "\<lambda>s. None" "39995 / 10"]
    clasificar_rama_rangos [of "\<lambda>s. None" 9100]
    clasificar_rama_rangos [of "\<lambda>s. None" 9500]
  by simp

section \<open>Properties of the record normaliser\<close>













section \<open>Properties of the cleaning for the income distribution\<close>








text \<open>A second column already called \<open>INGRESO_REAL\<close> makes the function raise.\<close>

lemma limpiar_boxplot_etiqueta_duplicada:
  "limpiar_boxplot [''ingreso_real_2016'', ''INGRESO_REAL''] df = Inl ValueError"
  by (simp add: limpiar_boxplot_def columnas_ingreso_real_def lower_def lower_char_def prefix_def
      rename_columna_def etiqueta_unica_def)






section \<open>Properties of the weighted mean\<close>

lemma map2_map_map: "map2 f (map g t) (map h t) = map (\<lambda>r. f (g r) (h r)) t"
  by (induction t) auto

lemma mask_select_map: "mask_select (map f t) (map p t) = map f (filter p t)"
  by (induction t) (auto simp: mask_select_def)

lemma np_sum_Some: "foldl fadd (Some a) (map Some xs) = Some (a + sum_list xs)"
  by (induction xs arbitrary: a) (auto simp: fadd_def)

lemma np_sum_present: "np_sum (map Some xs) = Some (sum_list xs)"
  by (simp add: np_sum_def np_sum_Some)

lemma elegibles_Nil [simp]: "elegibles [] = []"
  by (simp add: elegibles_def List.map_filter_def)

lemma elegibles_Cons:
  "elegibles (r # t) =
     (case (INGRESO_REAL r, PONDERA r) of
        (Some a, Some b) \<Rightarrow> if 0 < b then (a, b) # elegibles t else elegibles t
      | _ \<Rightarrow> elegibles t)"
  by (simp add: elegibles_def List.map_filter_def split: option.splits)

lemma productos_elegibles:
  "map (\<lambda>r. fmul (INGRESO_REAL r) (PONDERA r)) (filter elegible t) =
     map Some (map (\<lambda>p. fst p * snd p) (elegibles t))"
  by (induction t)
    (auto simp: elegibles_Cons elegible_def isnan_def gt_num_def fmul_def split: option.splits)

lemma pesos_elegibles:
  "map PONDERA (filter elegible t) = map Some (map snd (elegibles t))"
  by (induction t)
    (auto simp: elegibles_Cons elegible_def isnan_def gt_num_def split: option.splits)

lemma elegibles_empty_iff: "elegibles t = [] \<longleftrightarrow> filter elegible t = []"
  by (induction t)
    (auto simp: elegibles_Cons elegible_def isnan_def gt_num_def split: option.splits)

lemma pesos_positivos: "p \<in> set (elegibles t) \<Longrightarrow> 0 < snd p"
  by (induction t) (auto simp: elegibles_Cons split: option.splits if_splits)

lemma sum_list_pos_real:
  fixes xs :: "real list"
  shows "xs \<noteq> [] \<Longrightarrow> \<forall>x \<in> set xs. 0 < x \<Longrightarrow> 0 < sum_list xs"
  by (induction xs) (auto intro: add_pos_nonneg sum_list_nonneg less_imp_le)

lemma suma_pesos_positiva: "elegibles t \<noteq> [] \<Longrightarrow> 0 < sum_list (map snd (elegibles t))"
  by (rule sum_list_pos_real) (auto dest: pesos_positivos)

lemma media_code:
  "(if filter elegible t = [] then None
    else fdiv (np_sum (map2 fmul (map INGRESO_REAL (filter elegible t)) (map PONDERA (filter elegible t))))
              (np_sum (map PONDERA (filter elegible t))))
   = media_ponderada (elegibles t)"
proof (cases "elegibles t = []")
  case True
  then show ?thesis
    by (simp add: media_ponderada_def elegibles_empty_iff)
next
  case False
  then have pos: "sum_list (map snd (elegibles t)) \<noteq> 0"
    using suma_pesos_positiva [of t] by simp
  from False have ne: "filter elegible t \<noteq> []"
    by (simp add: elegibles_empty_iff)
  have p: "np_sum (map2 fmul (map INGRESO_REAL (filter elegible t)) (map PONDERA (filter elegible t)))
      = Some (sum_list (map (\<lambda>p. fst p * snd p) (elegibles t)))"
    by (simp only: map2_map_map productos_elegibles np_sum_present)
  have w: "np_sum (map PONDERA (filter elegible t)) = Some (sum_list (map snd (elegibles t)))"
    by (simp only: pesos_elegibles np_sum_present)
  show ?thesis
    unfolding p w using False ne pos
    by (simp add: fdiv_def media_ponderada_def)
qed

lemma wmean_rows:
  "wmean (map INGRESO_REAL t) (map PONDERA t) = media_ponderada (elegibles t)"
proof -
  have m: "map2 (\<lambda>xi wi. \<not> isnan xi \<and> gt_num wi 0) (map INGRESO_REAL t) (map PONDERA t) = map elegible t"
    by (simp add: map2_map_map elegible_def)
  have any: "True \<in> set (map elegible t) \<longleftrightarrow> filter elegible t \<noteq> []"
    by (auto simp: filter_empty_conv)
  show ?thesis
    unfolding wmean_def m Let_def any mask_select_map
    using media_code [of t] by (auto split: if_splits)
qed

lemma media_univariado:
  "MEDIA (univariado_grupo t) = media_ponderada (elegibles t)"
proof -
  have m: "map2 (\<lambda>xi wi. \<not> isnan xi \<and> gt_num wi 0) (map INGRESO_REAL t) (map PONDERA t) = map elegible t"
    by (simp add: map2_map_map elegible_def)
  have cnt: "length (filter id (map elegible t)) = 0 \<longleftrightarrow> filter elegible t = []"
    by (auto simp: filter_empty_conv)
  have "MEDIA (univariado_grupo t) =
      (if length (filter id (map elegible t)) = 0 then None
       else fdiv (np_sum (map2 fmul (mask_select (map INGRESO_REAL t) (map elegible t))
                    (mask_select (map PONDERA t) (map elegible t))))
              (np_sum (mask_select (map PONDERA t) (map elegible t))))"
    unfolding univariado_grupo_def m Let_def by (simp split: if_splits)
  then show ?thesis
    unfolding cnt mask_select_map using media_code [of t] by simp
qed

text \<open>
  C1. For every group, the weighted mean computed by \<open>wmean\<close>, and the \<open>MEDIA\<close> of the
  univariate summary, is the sum of \<open>x\<^sub>i * w\<^sub>i\<close> divided by the sum of \<open>w\<^sub>i\<close> over the
  eligible records (income present, weight strictly positive), a positive divisor; it
  is missing, neither zero nor an error, when no record is eligible. The tables by
  region and by region and quarter hold this value for each of their groups.
\<close>

theorem wmean_media_ponderada:
  "wmean (map INGRESO_REAL t) (map PONDERA t) = media_ponderada (elegibles t)
   \<and> MEDIA (univariado_grupo t) = media_ponderada (elegibles t)
   \<and> (elegibles t = [] \<longrightarrow> media_ponderada (elegibles t) = None)
   \<and> (elegibles t \<noteq> [] \<longrightarrow>
        0 < sum_list (map snd (elegibles t))
        \<and> media_ponderada (elegibles t) =
            Some (sum_list (map (\<lambda>p. fst p * snd p) (elegibles t)) / sum_list (map snd (elegibles t))))
   \<and> ingreso_promedio_por_aglomerado df aglos =
        map (\<lambda>(k, g). (k, media_ponderada (elegibles g)))
          (groupby AGLOMERADO (filtrar_aglomerados aglos df))
   \<and> ingreso_promedio_trimestral_por_aglomerado df aglos =
        map (\<lambda>(k, g). (k, media_ponderada (elegibles g)))
          (groupby key3 (filtrar_aglomerados aglos df))"
  using suma_pesos_positiva [of t]
  by (simp add: wmean_rows media_univariado media_ponderada_def
      ingreso_promedio_por_aglomerado_def ingreso_promedio_trimestral_por_aglomerado_def)

lemma elegibles_ejemplo: "elegibles [fila 20 2 1000, fila 25 2 3000] = [(1000, 2), (3000, 2)]"
  by (simp add: elegibles_Cons fila_def)

theorem wmean_media_ponderada_witness:
  "elegibles [fila 20 2 1000, fila 25 2 3000] = [(1000, 2), (3000, 2)]
   \<and> wmean (map INGRESO_REAL [fila 20 2 1000, fila 25 2 3000])
        (map PONDERA [fila 20 2 1000, fila 25 2 3000]) = Some 2000
   \<and> MEDIA (univariado_grupo [fila 20 2 1000, fila 25 2 3000]) = Some 2000
   \<and> elegibles [fila 20 0 1000] = []
   \<and> wmean (map INGRESO_REAL [fila 20 0 1000]) (map PONDERA [fila 20 0 1000]) = None"
  using wmean_media_ponderada [of "[fila 20 2 1000, fila 25 2 3000]" "[]" None]
    wmean_media_ponderada [of "[fila 20 0 1000]" "[]" None]
  by (simp add: elegibles_Cons fila_def media_ponderada_def)

section \<open>Properties of the weighted quantiles\<close>

lemma present_Some: "present (map Some xs) = xs"
  by (induction xs) (auto simp: present_def List.map_filter_def)

lemma dropna_Nil: "dropna [] = []"
  by (simp add: dropna_def List.map_filter_def)

lemma dropna_Cons:
  "dropna (p # ps) =
     (case p of (Some a, Some b) \<Rightarrow> (a, b) # dropna ps | _ \<Rightarrow> dropna ps)"
  by (simp add: dropna_def List.map_filter_def split: option.splits prod.splits)

lemma dfp_elegibles:
  "filter (\<lambda>(xi, wi). 0 < wi) (dropna (zip (map INGRESO_REAL t) (map PONDERA t))) = elegibles t"
  by (induction t) (auto simp: dropna_Nil dropna_Cons elegibles_Cons split: option.splits)

lemma repetir_Nil: "repetir [] = []"
  by (simp add: repetir_def)

lemma univariado_repetir:
  "MEDIANA (univariado_grupo t) = pd_median (map Some (repetir (elegibles t)))"
  "Q25 (univariado_grupo t) = pd_quantile (map Some (repetir (elegibles t))) (25 / 100)"
  "Q75 (univariado_grupo t) = pd_quantile (map Some (repetir (elegibles t))) (75 / 100)"
  unfolding univariado_grupo_def Let_def dfp_elegibles
  by (simp_all add: repetir_Nil pd_median_def pd_quantile_def present_def List.map_filter_def)

lemma expandir_Nil: "expandir entero [] = {#}"
  by (simp add: expandir_def)

lemma expandir_Cons:
  "expandir entero (p # e) = replicate_mset (nat (entero (snd p))) (fst p) + expandir entero e"
  by (simp add: expandir_def)

lemma mset_repetir: "mset (repetir e) = expandir astype_int e"
  by (induction e) (auto simp: repetir_def expandir_Nil expandir_Cons)

lemma pd_median_mset: "pd_median (map Some vs) = mediana_mset (mset vs)"
  by (simp add: pd_median_def mediana_mset_def present_Some)

lemma pd_quantile_mset: "pd_quantile (map Some vs) q = cuantil_mset (mset vs) q"
  by (simp add: pd_quantile_def cuantil_mset_def present_Some)

lemma cuantiles_univariado:
  "MEDIANA (univariado_grupo t) = mediana_mset (expandir astype_int (elegibles t))"
  "Q25 (univariado_grupo t) = cuantil_mset (expandir astype_int (elegibles t)) (25 / 100)"
  "Q75 (univariado_grupo t) = cuantil_mset (expandir astype_int (elegibles t)) (75 / 100)"
  unfolding univariado_repetir pd_median_mset pd_quantile_mset mset_repetir
  by (rule refl)+

text \<open>
  C2, as the code has it. For every group, the weighted median, Q25 and Q75 are the
  median and the quantiles (the middle order statistic or the mean of the two middle
  ones; the linear interpolation between the neighbouring order statistics) of the
  multiset in which every eligible record (income present, weight > 0) stands
  \<open>int(w\<^sub>i)\<close> times: the weight truncated, which for a positive weight is its floor,
  not the weight rounded.
\<close>

theorem cuantiles_por_repeticion:
  "MEDIANA (univariado_grupo t) = mediana_mset (expandir astype_int (elegibles t))
   \<and> Q25 (univariado_grupo t) = cuantil_mset (expandir astype_int (elegibles t)) (25 / 100)
   \<and> Q75 (univariado_grupo t) = cuantil_mset (expandir astype_int (elegibles t)) (75 / 100)
   \<and> (\<forall>p \<in> set (elegibles t). 0 \<le> astype_int (snd p) \<and> astype_int (snd p) = \<lfloor>snd p\<rfloor>)"
proof -
  have "0 \<le> astype_int (snd p) \<and> astype_int (snd p) = \<lfloor>snd p\<rfloor>" if "p \<in> set (elegibles t)" for p
    using pesos_positivos [OF that] by (simp add: astype_int_def)
  with cuantiles_univariado [of t] show ?thesis
    by blast
qed

lemma elegibles_repeticion: "elegibles [fila 30 (8 / 5) 1, fila 30 1 2] = [(1, 8 / 5), (2, 1)]"
  by (simp add: elegibles_Cons fila_def)

lemma expandir_truncado: "expandir astype_int [(1, 8 / 5), (2, 1)] = {#1, 2#}"
  by (simp add: expandir_Cons expandir_Nil astype_int_def)

lemma expandir_redondeado: "expandir py_round [(1, 8 / 5), (2, 1)] = {#1, 1, 2#}"
  by (simp add: expandir_Cons expandir_Nil py_round_def eval_nat_numeral)

lemma medianas_ejemplo: "mediana_mset {#1, 2#} = Some (3 / 2)" "mediana_mset {#1, 1, 2#} = Some 1"
  by (simp_all add: mediana_mset_def median_sorted_def)

lemma cuartiles_ejemplo: "cuantil_mset {#1, 2#} (25 / 100) = Some (5 / 4)"
  "cuantil_mset {#1, 2#} (75 / 100) = Some (7 / 4)"
  by (simp_all add: cuantil_mset_def quantile_sorted_def interpolar_def)

text \<open>
  C2 as it is stated fails on two records with incomes 1 and 2 and weights 1.6 and 1:
  the code repeats the first record once (median 1.5); rounding would repeat it twice
  (median 1).
\<close>

theorem cuantiles_por_repeticion_counterexample:
  "MEDIANA (univariado_grupo [fila 30 (8 / 5) 1, fila 30 1 2]) = Some (3 / 2)
   \<and> mediana_mset (expandir py_round (elegibles [fila 30 (8 / 5) 1, fila 30 1 2])) = Some 1"
  unfolding cuantiles_univariado elegibles_repeticion expandir_truncado expandir_redondeado medianas_ejemplo
  by simp

theorem cuantiles_por_repeticion_witness:
  "elegibles [fila 30 (8 / 5) 1, fila 30 1 2] = [(1, 8 / 5), (2, 1)]
   \<and> astype_int (8 / 5) = 1
   \<and> MEDIANA (univariado_grupo [fila 30 (8 / 5) 1, fila 30 1 2]) = Some (3 / 2)
   \<and> Q25 (univariado_grupo [fila 30 (8 / 5) 1, fila 30 1 2]) = Some (5 / 4)
   \<and> Q75 (univariado_grupo [fila 30 (8 / 5) 1, fila 30 1 2]) = Some (7 / 4)"
  using cuantiles_por_repeticion [of "[fila 30 (8 / 5) 1, fila 30 1 2]"]
  unfolding elegibles_repeticion expandir_truncado medianas_ejemplo cuartiles_ejemplo
  by (simp add: astype_int_def)


text \<open>The interpolated quantile of a sorted list grows with the position.\<close>

lemma interpolar_bounds:
  assumes s: "sorted s" and h0: "0 \<le> h" and hn: "h \<le> real (length s) - 1"
  shows "s ! nat \<lfloor>h\<rfloor> \<le> interpolar s h"
    and "interpolar s h \<le> s ! min (nat \<lfloor>h\<rfloor> + 1) (length s - 1)"
proof -
  define lo where "lo = nat \<lfloor>h\<rfloor>"
  define hi where "hi = min (lo + 1) (length s - 1)"
  have n: "1 \<le> length s"
    using h0 hn by linarith
  have lo_real: "real lo = of_int \<lfloor>h\<rfloor>"
    using h0 by (simp add: lo_def)
  have "real lo \<le> h"
    unfolding lo_real by (rule of_int_floor_le)
  with hn have "real lo \<le> real (length s) - 1" by simp
  with n have lo_n: "lo \<le> length s - 1" by linarith
  have lo_hi: "lo \<le> hi" and hi_n: "hi < length s"
    using lo_n n by (simp_all add: hi_def)
  have d: "s ! lo \<le> s ! hi"
    using s lo_hi hi_n by (rule sorted_nth_mono)
  have f0: "0 \<le> h - real lo" and f1: "h - real lo \<le> 1"
    unfolding lo_real by linarith+
  have i: "interpolar s h = s ! lo + (s ! hi - s ! lo) * (h - real lo)"
    by (simp add: interpolar_def lo_def hi_def Let_def)
  have "0 \<le> (s ! hi - s ! lo) * (h - real lo)"
    using d f0 by simp
  then show "s ! nat \<lfloor>h\<rfloor> \<le> interpolar s h"
    unfolding i lo_def by simp
  have "(s ! hi - s ! lo) * (h - real lo) \<le> (s ! hi - s ! lo) * 1"
    using d f1 by (intro mult_left_mono) simp_all
  then show "interpolar s h \<le> s ! min (nat \<lfloor>h\<rfloor> + 1) (length s - 1)"
    unfolding i hi_def lo_def by simp
qed

lemma interpolar_mono:
  assumes s: "sorted s" and h0: "0 \<le> h" and hh: "h \<le> h'" and hn: "h' \<le> real (length s) - 1"
  shows "interpolar s h \<le> interpolar s h'"
proof -
  define lo where "lo = nat \<lfloor>h\<rfloor>"
  define lo' where "lo' = nat \<lfloor>h'\<rfloor>"
  have n: "1 \<le> length s"
    using h0 hh hn by linarith
  have le: "lo \<le> lo'"
    unfolding lo_def lo'_def using hh by (intro nat_mono floor_mono)
  have "real lo' \<le> h'"
    using h0 hh by (simp add: lo'_def)
  with hn n have lo'_n: "lo' < length s" by linarith
  show ?thesis
  proof (cases "lo = lo'")
    case True
    define hi where "hi = min (lo + 1) (length s - 1)"
    have "lo \<le> hi" "hi < length s"
      using lo'_n True n by (simp_all add: hi_def)
    with s have d: "s ! lo \<le> s ! hi"
      by (intro sorted_nth_mono)
    have a: "interpolar s h = s ! lo + (s ! hi - s ! lo) * (h - real lo)"
      by (simp add: interpolar_def lo_def hi_def Let_def)
    have b: "interpolar s h' = s ! lo + (s ! hi - s ! lo) * (h' - real lo)"
      using True by (simp add: interpolar_def lo'_def lo_def hi_def Let_def)
    have "(s ! hi - s ! lo) * (h - real lo) \<le> (s ! hi - s ! lo) * (h' - real lo)"
      using d hh by (intro mult_left_mono) simp_all
    then show ?thesis
      unfolding a b by simp
  next
    case False
    with le have lt: "lo + 1 \<le> lo'" by simp
    have "interpolar s h \<le> s ! min (lo + 1) (length s - 1)"
      unfolding lo_def using s h0 hh hn by (intro interpolar_bounds) simp_all
    also have "\<dots> \<le> s ! lo'"
      using s lt lo'_n by (intro sorted_nth_mono) simp_all
    also have "\<dots> \<le> interpolar s h'"
      unfolding lo'_def using s h0 hh hn by (intro interpolar_bounds) simp_all
    finally show ?thesis .
  qed
qed

lemma median_interpolar:
  assumes "s \<noteq> []"
  shows "median_sorted s = interpolar s ((real (length s) - 1) / 2)"
proof (cases "odd (length s)")
  case True
  then obtain k where k: "length s = 2 * k + 1"
    by (auto elim: oddE)
  have h: "(real (length s) - 1) / 2 = real k"
    by (simp add: k)
  show ?thesis
    unfolding h by (simp add: median_sorted_def interpolar_def k)
next
  case False
  then obtain k where k: "length s = 2 * k"
    by (auto elim: evenE)
  with assms have k1: "1 \<le> k" by (cases k) auto
  have h: "(real (length s) - 1) / 2 = real k - 1 / 2"
    by (simp add: k field_simps)
  have fl: "\<lfloor>real k - 1 / 2\<rfloor> = int k - 1"
    by (rule floor_unique) simp_all
  have lo: "nat \<lfloor>real k - 1 / 2\<rfloor> = k - 1"
    unfolding fl using k1 by simp
  have hi: "min (k - 1 + 1) (length s - 1) = k"
    using k1 by (simp add: k)
  have fr: "real k - 1 / 2 - real (k - 1) = 1 / 2"
    using k1 by (simp add: of_nat_diff)
  have "interpolar s (real k - 1 / 2) = s ! (k - 1) + (s ! k - s ! (k - 1)) * (1 / 2)"
    unfolding interpolar_def Let_def lo hi fr ..
  then show ?thesis
    unfolding h using False k1 by (simp add: median_sorted_def k field_simps)
qed

lemma cuartiles_sorted:
  assumes "sorted s" "s \<noteq> []"
  shows "quantile_sorted s (25 / 100) \<le> median_sorted s"
    and "median_sorted s \<le> quantile_sorted s (75 / 100)"
proof -
  have n: "1 \<le> real (length s)"
    using assms(2) by (cases s) auto
  show "quantile_sorted s (25 / 100) \<le> median_sorted s"
    unfolding quantile_sorted_def median_interpolar [OF assms(2)]
    using assms(1) n by (intro interpolar_mono) simp_all
  show "median_sorted s \<le> quantile_sorted s (75 / 100)"
    unfolding quantile_sorted_def median_interpolar [OF assms(2)]
    using assms(1) n by (intro interpolar_mono) simp_all
qed


lemma cuartiles_le_num:
  assumes "repetir (elegibles g) \<noteq> []"
  shows "le_num (Q25 (univariado_grupo g)) (MEDIANA (univariado_grupo g))"
    and "le_num (MEDIANA (univariado_grupo g)) (Q75 (univariado_grupo g))"
proof -
  from assms have ne: "sort (repetir (elegibles g)) \<noteq> []"
    by (metis length_sort length_0_conv)
  have "quantile_sorted (sort (repetir (elegibles g))) (25 / 100)
      \<le> median_sorted (sort (repetir (elegibles g)))"
    and "median_sorted (sort (repetir (elegibles g)))
      \<le> quantile_sorted (sort (repetir (elegibles g))) (75 / 100)"
    using cuartiles_sorted [OF sorted_sort ne] by blast+
  with assms show "le_num (Q25 (univariado_grupo g)) (MEDIANA (univariado_grupo g))"
    and "le_num (MEDIANA (univariado_grupo g)) (Q75 (univariado_grupo g))"
    by (simp_all add: le_num_def univariado_repetir pd_median_def pd_quantile_def present_Some)
qed

lemma cuartiles_ausentes:
  assumes "repetir (elegibles g) = []"
  shows "Q25 (univariado_grupo g) = None \<and> MEDIANA (univariado_grupo g) = None
    \<and> Q75 (univariado_grupo g) = None"
  using assms
  by (simp add: univariado_repetir pd_median_def pd_quantile_def present_def List.map_filter_def)

text \<open>
  C9, as the code has it. In a group whose expansion is not empty (some eligible record
  has \<open>int(w) \<ge> 1\<close>) the quartiles are present and \<open>Q25 \<le> MEDIANA \<le> Q75\<close>. In every
  other group the three quartiles are missing, and no comparison between them holds.
  Every row of \<open>calcular_univariado\<close> is the summary of one of its groups.
\<close>

theorem cuartiles_ordenados:
  fixes t df :: "'a defl_row_scheme list"
  shows "(repetir (elegibles t) \<noteq> [] \<longrightarrow>
            le_num (Q25 (univariado_grupo t)) (MEDIANA (univariado_grupo t))
            \<and> le_num (MEDIANA (univariado_grupo t)) (Q75 (univariado_grupo t)))
   \<and> (repetir (elegibles t) = [] \<longrightarrow>
            Q25 (univariado_grupo t) = None \<and> MEDIANA (univariado_grupo t) = None
            \<and> Q75 (univariado_grupo t) = None)
   \<and> (\<forall>ku \<in> set (calcular_univariado str_of df).
         \<exists>g. (fst ku, g) \<in> set (groupby (key_periodo str_of) df) \<and> snd ku = univariado_grupo g)"
proof -
  have rows: "\<forall>ku \<in> set (calcular_univariado str_of df).
         \<exists>g. (fst ku, g) \<in> set (groupby (key_periodo str_of) df) \<and> snd ku = univariado_grupo g"
    by (auto simp: calcular_univariado_def)
  show ?thesis
    using cuartiles_le_num [of t] cuartiles_ausentes [of t] rows by blast
qed

theorem cuartiles_ordenados_witness:
  "repetir (elegibles [fila 30 2 100, fila 30 1 400]) = [100, 100, 400]
   \<and> Q25 (univariado_grupo [fila 30 2 100, fila 30 1 400]) = Some 100
   \<and> MEDIANA (univariado_grupo [fila 30 2 100, fila 30 1 400]) = Some 100
   \<and> Q75 (univariado_grupo [fila 30 2 100, fila 30 1 400]) = Some 250
   \<and> le_num (Q25 (univariado_grupo [fila 30 2 100, fila 30 1 400]))
        (MEDIANA (univariado_grupo [fila 30 2 100, fila 30 1 400]))
   \<and> le_num (MEDIANA (univariado_grupo [fila 30 2 100, fila 30 1 400]))
        (Q75 (univariado_grupo [fila 30 2 100, fila 30 1 400]))
   \<and> repetir (elegibles [fila 30 0 100]) = []
   \<and> Q25 (univariado_grupo [fila 30 0 100]) = None"
proof -
  have e: "elegibles [fila 30 2 100, fila 30 1 400] = [(100, 2), (400, 1)]"
    "elegibles [fila 30 0 100] = []"
    by (simp_all add: elegibles_Cons fila_def)
  have r: "repetir [(100, 2), (400, 1)] = [100, 100, 400]"
    by (simp add: repetir_def astype_int_def eval_nat_numeral)
  have q: "pd_quantile [Some 100, Some 100, Some 400] (25 / 100) = Some 100"
    "pd_median [Some 100, Some 100, Some 400] = Some 100"
    "pd_quantile [Some 100, Some 100, Some 400] (75 / 100) = Some 250"
    "pd_quantile [] (25 / 100) = None"
    by (simp_all add: pd_quantile_def pd_median_def present_def List.map_filter_def
        quantile_sorted_def median_sorted_def interpolar_def)
  have u: "Q25 (univariado_grupo [fila 30 2 100, fila 30 1 400]) = Some 100"
    "MEDIANA (univariado_grupo [fila 30 2 100, fila 30 1 400]) = Some 100"
    "Q75 (univariado_grupo [fila 30 2 100, fila 30 1 400]) = Some 250"
    "Q25 (univariado_grupo [fila 30 0 100]) = None"
    unfolding univariado_repetir e r repetir_Nil list.map q by (rule refl)+
  show ?thesis
    using cuartiles_ordenados [of "[fila 30 2 100, fila 30 1 400]" "\<lambda>x. []" "[]"]
      cuartiles_ordenados [of "[fila 30 0 100]" "\<lambda>x. []" "[]"]
    by (simp add: u e r repetir_Nil le_num_def)
qed

text \<open>
  C9 as it is stated fails on a group with one record of income 100 and weight 0.5: the
  record is eligible and the weighted mean is 100, but the weight truncates to no
  repetition, the three quartiles are missing, and \<open>Q25 \<le> MEDIANA\<close> does not hold.
\<close>

theorem cuartiles_ordenados_counterexample:
  "MEDIA (univariado_grupo [fila 30 (1 / 2) 100]) = Some 100
   \<and> Q25 (univariado_grupo [fila 30 (1 / 2) 100]) = None
   \<and> MEDIANA (univariado_grupo [fila 30 (1 / 2) 100]) = None
   \<and> Q75 (univariado_grupo [fila 30 (1 / 2) 100]) = None
   \<and> \<not> le_num (Q25 (univariado_grupo [fila 30 (1 / 2) 100]))
          (MEDIANA (univariado_grupo [fila 30 (1 / 2) 100]))"
proof -
  have e: "elegibles [fila 30 (1 / 2) 100] = [(100, 1 / 2)]"
    by (simp add: elegibles_Cons fila_def)
  have r: "repetir [(100, 1 / 2)] = []"
    by (simp add: repetir_def astype_int_def)
  have m: "MEDIA (univariado_grupo [fila 30 (1 / 2) 100]) = Some 100"
    by (simp add: media_univariado e media_ponderada_def)
  have q: "Q25 (univariado_grupo [fila 30 (1 / 2) 100]) = None"
    "MEDIANA (univariado_grupo [fila 30 (1 / 2) 100]) = None"
    "Q75 (univariado_grupo [fila 30 (1 / 2) 100]) = None"
    unfolding univariado_repetir e r
    by (simp_all add: pd_median_def pd_quantile_def present_def List.map_filter_def)
  show ?thesis
    by (simp add: m q le_num_def)
qed

section \<open>Properties of the employment shares\<close>

lemma sum_skipna_peso: "sum_skipna (map (PONDERA \<circ> fst) g) = sum_list (map peso g)"
  by (induction g) (auto simp: sum_skipna_def present_def List.map_filter_def peso_def split: option.splits)

lemma sum_list_filter_split:
  fixes f :: "'a \<Rightarrow> real"
  shows "sum_list (map f xs) = sum_list (map f (filter P xs)) + sum_list (map f (filter (\<lambda>x. \<not> P x) xs))"
  by (induction xs) auto

lemma sum_list_filter_disj:
  fixes f :: "'a \<Rightarrow> real"
  assumes "\<And>x. x \<in> set xs \<Longrightarrow> \<not> (P x \<and> Q x)"
  shows "sum_list (map f (filter (\<lambda>x. P x \<or> Q x) xs)) =
         sum_list (map f (filter P xs)) + sum_list (map f (filter Q xs))"
  using assms by (induction xs) auto

lemma suma_por_ramas:
  fixes f :: "'a \<times> 'b option \<Rightarrow> real"
  assumes "distinct bs"
  shows "(\<Sum>b\<leftarrow>bs. sum_list (map f (filter (\<lambda>p. snd p = Some b) xs))) =
         sum_list (map f (filter (\<lambda>p. snd p \<in> Some ` set bs) xs))"
  using assms
proof (induction bs)
  case Nil
  then show ?case by simp
next
  case (Cons b bs)
  have "sum_list (map f (filter (\<lambda>p. snd p = Some b \<or> snd p \<in> Some ` set bs) xs)) =
        sum_list (map f (filter (\<lambda>p. snd p = Some b) xs))
        + sum_list (map f (filter (\<lambda>p. snd p \<in> Some ` set bs) xs))"
    using Cons.prems by (intro sum_list_filter_disj) auto
  moreover have "(\<lambda>p. snd p \<in> Some ` set (b # bs)) = (\<lambda>p :: 'a \<times> 'b option. snd p = Some b \<or> snd p \<in> Some ` set bs)"
    by auto
  ultimately show ?case
    using Cons by simp
qed

lemma filter_concat_map:
  assumes "\<And>k r. k \<in> set ks \<Longrightarrow> r \<in> set (f k) \<Longrightarrow> P r = Q k"
  shows "filter P (concat (map f ks)) = concat (map f (filter Q ks))"
  using assms
proof (induction ks)
  case Nil
  then show ?case by simp
next
  case (Cons k ks)
  have "filter P (f k) = (if Q k then f k else [])"
    using Cons.prems [of k] by (auto simp: filter_empty_conv filter_id_conv)
  with Cons show ?case by simp
qed

lemma filter_eq_singleton: "distinct xs \<Longrightarrow> x \<in> set xs \<Longrightarrow> filter (\<lambda>k. k = x) xs = [x]"
  by (induction xs) (auto simp: filter_empty_conv)

lemma groupby_distinct: "distinct (map fst (groupby key df))"
  by (simp add: groupby_keys)

lemma set_map_filter_keys: "set (List.map_filter key df) = {k. \<exists>r \<in> set df. key r = Some k}"
  by (induction df) (auto simp: List.map_filter_def)

lemma groupby_key_set:
  "set (map fst (groupby key df)) = {k. \<exists>r \<in> set df. key r = Some k}"
  by (simp add: groupby_keys set_map_filter_keys)

lemma suma_pondera_groupby:
  "suma_pondera (groupby key df) =
     map (\<lambda>k. (k, sum_list (map peso (filter (\<lambda>r. key r = Some k) df))))
       (sort (remdups (List.map_filter key df)))"
  by (simp add: suma_pondera_def groupby_def sum_skipna_peso sum_skipna_peso [unfolded comp_def]
      comp_def)


lemma sum_list_divide_const:
  fixes f :: "'a \<Rightarrow> real"
  shows "sum_list (map (\<lambda>k. f k / c) ks) = sum_list (map f ks) / c"
  by (induction ks) (auto simp: add_divide_distrib)

lemma member_le_sum_list_real:
  fixes xs :: "real list"
  shows "\<forall>x \<in> set xs. 0 \<le> x \<Longrightarrow> x \<in> set xs \<Longrightarrow> x \<le> sum_list xs"
  by (induction xs) (auto simp: sum_list_nonneg add_increasing add_increasing2)

lemma key_rama_iff:
  "key_rama p = Some (a, y, b) \<longleftrightarrow> key2 (fst p) = Some (a, y) \<and> snd p = Some b"
  by (auto simp: key_rama_def key2_def split: option.splits)

lemma clasificar_rama_valores:
  "clasificar_rama int_str c = Some b \<Longrightarrow> b = ''Industria'' \<or> b = ''Turismo''"
  by (auto simp: clasificar_rama_def split: if_splits option.splits)

lemma ocupados_rama_set:
  "p \<in> set (ocupados_rama int_str df aglos edad_min) \<Longrightarrow>
     fst p \<in> set df \<and> snd p = clasificar_rama int_str (PP04B_COD (fst p))"
  by (auto simp: ocupados_rama_def agregar_columna_rama_def filtrar_aglomerados_def
      split: option.splits)

lemma merge_total_unico:
  assumes "filter (\<lambda>kt. fst kt = (a, y)) ocup_total = [((a, y), tot)]" and "tot \<noteq> 0"
  shows "merge_total ocup_total ((a, y, b), s) =
     [\<lparr> AGLOMERADO_p = a, ANO4_p = y, RAMA = b, OCUPADOS_RAMA = s,
        OCUPADOS_TOTALES = Some tot, PART_RAMA = Some (s / tot) \<rparr>]"
  using assms by (simp add: merge_total_def fdiv_def)

lemma merge_total_keys:
  "r \<in> set (merge_total ocup_total n) \<Longrightarrow>
     AGLOMERADO_p r = fst (fst n) \<and> ANO4_p r = fst (snd (fst n))"
  by (cases n) (auto simp: merge_total_def Let_def split: if_splits)

lemma participacion_unfold:
  "participacion_empleo_por_rama int_str df aglos edad_min =
     concat (map (merge_total (suma_pondera (groupby (key2 \<circ> fst) (ocupados_rama int_str df aglos edad_min))))
       (suma_pondera (groupby key_rama
          (filter (\<lambda>p. snd p \<noteq> None) (ocupados_rama int_str df aglos edad_min)))))"
  by (simp add: participacion_empleo_por_rama_def Let_def)


text \<open>
  C8, as the code has it. The function sums \<open>PONDERA\<close> as it comes, with no filter on
  its sign. With weights that are never negative, for every region and year whose total
  employed weight is not zero: the result has at most one row for Industry and one for
  Tourism, each with the share of its branch in that total, and the shares add up to at
  most 1, to less than 1 when an employed record of that region and year is
  unclassified with a positive weight. The total sums the weight of all the employed
  records, classified or not; each numerator only that of its own branch.
\<close>

theorem participacion_cierre:
  assumes nn: "\<forall>r \<in> set df. no_negativo (PONDERA r)"
    and nz: "sum_skipna (map (PONDERA \<circ> fst) (ocupados_de int_str df aglos edad_min a y)) \<noteq> 0"
  shows "\<exists>shares.
      map PART_RAMA (filas_de a y (participacion_empleo_por_rama int_str df aglos edad_min))
        = map Some shares
      \<and> sum_list shares \<le> 1
      \<and> ((\<exists>p \<in> set (ocupados_de int_str df aglos edad_min a y).
             snd p = None \<and> gt_num (PONDERA (fst p)) 0) \<longrightarrow> sum_list shares < 1)
      \<and> (\<forall>r \<in> set (filas_de a y (participacion_empleo_por_rama int_str df aglos edad_min)).
            (RAMA r = ''Industria'' \<or> RAMA r = ''Turismo'')
            \<and> OCUPADOS_TOTALES r =
                Some (sum_skipna (map (PONDERA \<circ> fst) (ocupados_de int_str df aglos edad_min a y)))
            \<and> PART_RAMA r = Some (OCUPADOS_RAMA r /
                sum_skipna (map (PONDERA \<circ> fst) (ocupados_de int_str df aglos edad_min a y))))
      \<and> distinct (map RAMA (filas_de a y (participacion_empleo_por_rama int_str df aglos edad_min)))"
proof -
  define ocup where "ocup = ocupados_rama int_str df aglos edad_min"
  define G where "G = filter (\<lambda>p. key2 (fst p) = Some (a, y)) ocup"
  define tot where "tot = sum_list (map peso G)"
  define ramas where "ramas = filter (\<lambda>p. snd p \<noteq> None) ocup"
  define keys2 where "keys2 = sort (remdups (List.map_filter (key2 \<circ> fst) ocup))"
  define keys3 where "keys3 = sort (remdups (List.map_filter key_rama ramas))"
  define ks where "ks = filter (\<lambda>k. fst k = a \<and> fst (snd k) = y) keys3"
  define bs where "bs = map (\<lambda>k. snd (snd k)) ks"
  define S where "S = (\<lambda>b. sum_list (map peso (filter (\<lambda>p. snd p = Some b) G)))"
  define fila_rama where "fila_rama = (\<lambda>b. \<lparr> AGLOMERADO_p = a, ANO4_p = y, RAMA = b,
      OCUPADOS_RAMA = S b, OCUPADOS_TOTALES = Some tot, PART_RAMA = Some (S b / tot) \<rparr>)"
  have G_de: "ocupados_de int_str df aglos edad_min a y = G"
    by (simp add: ocupados_de_def G_def ocup_def)
  have tot_eq: "sum_skipna (map (PONDERA \<circ> fst) G) = tot"
    by (simp add: tot_def sum_skipna_peso)
  from nz have tot_nz: "tot \<noteq> 0"
    by (simp add: G_de tot_eq)
  \<comment> \<open>the denominator table has exactly one row for the region and year\<close>
  have ocup_total: "suma_pondera (groupby (key2 \<circ> fst) ocup) =
      map (\<lambda>k. (k, sum_list (map peso (filter (\<lambda>r. (key2 \<circ> fst) r = Some k) ocup)))) keys2"
    by (simp only: suma_pondera_groupby keys2_def)
  from tot_nz have "G \<noteq> []"
    by (auto simp: tot_def)
  then obtain p0 where "p0 \<in> set ocup" "key2 (fst p0) = Some (a, y)"
    by (auto simp: G_def filter_empty_conv)
  then have in2: "(a, y) \<in> set keys2"
    by (auto simp: keys2_def set_map_filter_keys)
  have d2: "distinct keys2"
    by (simp add: keys2_def)
  have lookup: "filter (\<lambda>kt. fst kt = (a, y)) (suma_pondera (groupby (key2 \<circ> fst) ocup)) = [((a, y), tot)]"
  proof -
    define g where "g = (\<lambda>k. sum_list (map peso (filter (\<lambda>r. (key2 \<circ> fst) r = Some k) ocup)))"
    have "filter (\<lambda>kt. fst kt = (a, y)) (map (\<lambda>k. (k, g k)) keys2)
        = map (\<lambda>k. (k, g k)) (filter (\<lambda>k. k = (a, y)) keys2)"
      by (simp add: filter_map comp_def)
    also have "\<dots> = [((a, y), g (a, y))]"
      by (simp add: filter_eq_singleton [OF d2 in2])
    also have "g (a, y) = tot"
      by (simp add: g_def tot_def G_def)
    finally show ?thesis
      unfolding ocup_total g_def .
  qed
  \<comment> \<open>the numerator rows of the region and year\<close>
  have num: "suma_pondera (groupby key_rama ramas) =
      map (\<lambda>k. (k, sum_list (map peso (filter (\<lambda>r. key_rama r = Some k) ramas)))) keys3"
    by (simp only: suma_pondera_groupby keys3_def)
  have out: "participacion_empleo_por_rama int_str df aglos edad_min =
      concat (map (merge_total (suma_pondera (groupby (key2 \<circ> fst) ocup)))
        (suma_pondera (groupby key_rama ramas)))"
    by (simp only: participacion_unfold ocup_def ramas_def)
  have filas1: "filas_de a y (participacion_empleo_por_rama int_str df aglos edad_min) =
      concat (map (merge_total (suma_pondera (groupby (key2 \<circ> fst) ocup)))
        (filter (\<lambda>n. fst (fst n) = a \<and> fst (snd (fst n)) = y) (suma_pondera (groupby key_rama ramas))))"
    unfolding filas_de_def out
    by (rule filter_concat_map) (auto dest: merge_total_keys)
  have filt: "filter (\<lambda>n. fst (fst n) = a \<and> fst (snd (fst n)) = y) (suma_pondera (groupby key_rama ramas)) =
      map (\<lambda>k. (k, sum_list (map peso (filter (\<lambda>r. key_rama r = Some k) ramas)))) ks"
    unfolding num ks_def by (simp add: filter_map comp_def)
  have ks_form: "k = (a, y, snd (snd k))" if "k \<in> set ks" for k
    using that by (auto simp: ks_def prod_eq_iff)
  have sumk: "sum_list (map peso (filter (\<lambda>r. key_rama r = Some k) ramas)) = S (snd (snd k))"
    if "k \<in> set ks" for k
  proof -
    have "filter (\<lambda>r. key_rama r = Some (a, y, snd (snd k))) ramas
        = filter (\<lambda>p. snd p = Some (snd (snd k))) G"
      unfolding ramas_def G_def filter_filter
      by (rule filter_cong) (auto simp: key_rama_iff)
    with ks_form [OF that] show ?thesis
      by (simp add: S_def)
  qed
  have row: "merge_total (suma_pondera (groupby (key2 \<circ> fst) ocup))
        (k, sum_list (map peso (filter (\<lambda>r. key_rama r = Some k) ramas))) = [fila_rama (snd (snd k))]"
    if "k \<in> set ks" for k
  proof -
    have "merge_total (suma_pondera (groupby (key2 \<circ> fst) ocup)) ((a, y, snd (snd k)), S (snd (snd k)))
        = [fila_rama (snd (snd k))]"
      unfolding fila_rama_def by (rule merge_total_unico [OF lookup tot_nz])
    with ks_form [OF that] sumk [OF that] show ?thesis
      by simp
  qed
  have filas: "filas_de a y (participacion_empleo_por_rama int_str df aglos edad_min) = map fila_rama bs"
  proof -
    have "concat (map (merge_total (suma_pondera (groupby (key2 \<circ> fst) ocup)))
        (map (\<lambda>k. (k, sum_list (map peso (filter (\<lambda>r. key_rama r = Some k) ramas)))) ks))
        = concat (map (\<lambda>k. [fila_rama (snd (snd k))]) ks)"
      unfolding map_map
      by (rule arg_cong [where f = concat], rule map_cong) (simp_all add: row)
    also have "\<dots> = map fila_rama bs"
      by (simp add: bs_def concat_map_singleton)
    finally show ?thesis
      unfolding filas1 filt .
  qed
  \<comment> \<open>the branches of the rows\<close>
  have d3: "distinct ks"
    by (simp add: ks_def keys3_def)
  have dbs: "distinct bs"
    unfolding bs_def
  proof (rule distinct_map [THEN iffD2], intro conjI d3 inj_onI)
    fix k k' assume "k \<in> set ks" "k' \<in> set ks" "snd (snd k) = snd (snd k')"
    then show "k = k'"
      using ks_form [of k] ks_form [of k'] by simp
  qed
  have set_bs: "set bs = {b. \<exists>p \<in> set G. snd p = Some b}"
  proof -
    have "set ks = {k. fst k = a \<and> fst (snd k) = y \<and> (\<exists>p \<in> set ramas. key_rama p = Some k)}"
      by (auto simp: ks_def keys3_def set_map_filter_keys)
    then have "set bs = {b. \<exists>p \<in> set ramas. key_rama p = Some (a, y, b)}"
      unfolding bs_def by force
    then show ?thesis
      by (auto simp: key_rama_iff ramas_def G_def)
  qed
  have ramas_val: "b = ''Industria'' \<or> b = ''Turismo''" if "b \<in> set bs" for b
  proof -
    from that obtain p where "p \<in> set ocup" "snd p = Some b"
      by (auto simp: set_bs G_def)
    then show ?thesis
      using ocupados_rama_set [of p int_str df aglos edad_min] clasificar_rama_valores [of int_str _ b]
      by (auto simp: ocup_def)
  qed
  \<comment> \<open>the sum of the shares\<close>
  have C: "sum_list (map S bs) = sum_list (map peso (filter (\<lambda>p. snd p \<noteq> None) G))"
  proof -
    have "sum_list (map S bs) = sum_list (map peso (filter (\<lambda>p. snd p \<in> Some ` set bs) G))"
      unfolding S_def by (rule suma_por_ramas [OF dbs])
    also have "filter (\<lambda>p. snd p \<in> Some ` set bs) G = filter (\<lambda>p. snd p \<noteq> None) G"
      by (rule filter_cong) (auto simp: set_bs)
    finally show ?thesis .
  qed
  have split: "tot = sum_list (map S bs) + sum_list (map peso (filter (\<lambda>p. \<not> snd p \<noteq> None) G))"
    unfolding C tot_def by (rule sum_list_filter_split)
  have peso_nn: "0 \<le> peso p" if "p \<in> set G" for p
  proof -
    from that have "fst p \<in> set df"
      using ocupados_rama_set [of p int_str df aglos edad_min] by (simp add: G_def ocup_def)
    with nn have "no_negativo (PONDERA (fst p))" by blast
    then show ?thesis
      by (simp add: peso_def no_negativo_def split: option.splits)
  qed
  have U_nn: "0 \<le> sum_list (map peso (filter (\<lambda>p. \<not> snd p \<noteq> None) G))"
    by (rule sum_list_nonneg) (auto simp: peso_nn)
  have C_nn: "0 \<le> sum_list (map S bs)"
    unfolding C by (rule sum_list_nonneg) (auto simp: peso_nn)
  from split U_nn C_nn tot_nz have tot_pos: "0 < tot"
    by linarith
  define shares where "shares = map (\<lambda>b. S b / tot) bs"
  have sum_shares: "sum_list shares = sum_list (map S bs) / tot"
    unfolding shares_def by (rule sum_list_divide_const)
  have le1: "sum_list shares \<le> 1"
    unfolding sum_shares using split U_nn tot_pos by (simp add: divide_le_eq)
  have lt1: "sum_list shares < 1"
    if "\<exists>p \<in> set G. snd p = None \<and> gt_num (PONDERA (fst p)) 0"
  proof -
    from that obtain p where p: "p \<in> set G" "snd p = None" "gt_num (PONDERA (fst p)) 0"
      by blast
    then have pos: "0 < peso p"
      by (simp add: peso_def gt_num_def split: option.splits)
    have "peso p \<in> set (map peso (filter (\<lambda>p. \<not> snd p \<noteq> None) G))"
      using p by auto
    moreover have "\<forall>x \<in> set (map peso (filter (\<lambda>p. \<not> snd p \<noteq> None) G)). 0 \<le> x"
      by (auto simp: peso_nn)
    ultimately have "peso p \<le> sum_list (map peso (filter (\<lambda>p. \<not> snd p \<noteq> None) G))"
      by (intro member_le_sum_list_real)
    with pos split tot_pos show ?thesis
      unfolding sum_shares by (simp add: divide_less_eq)
  qed
  have parts: "map PART_RAMA (map fila_rama bs) = map Some shares"
    by (simp add: shares_def fila_rama_def comp_def)
  have rows: "(RAMA r = ''Industria'' \<or> RAMA r = ''Turismo'') \<and> OCUPADOS_TOTALES r = Some tot
      \<and> PART_RAMA r = Some (OCUPADOS_RAMA r / tot)" if "r \<in> set (map fila_rama bs)" for r
  proof -
    from that obtain b where b: "b \<in> set bs" "r = fila_rama b"
      by auto
    with ramas_val [OF b(1)] show ?thesis
      by (auto simp: fila_rama_def)
  qed
  have dr: "distinct (map RAMA (map fila_rama bs))"
    using dbs by (simp add: fila_rama_def comp_def)
  show ?thesis
    unfolding G_de tot_eq filas
    using parts le1 lt1 rows dr by blast
qed

lemma ocupados_rama_tres: "ocupados_rama (\<lambda>s. None) tres None 18 =
   [(ocupado_rama 2000, Some ''Industria''), (ocupado_rama 5500, Some ''Turismo''), (ocupado_rama 9999, None)]"
  by (simp add: ocupados_rama_def tres_def agregar_columna_rama_def filtrar_aglomerados_def
      ocupado_rama_def ge_num_def eq_num_def clasificar_rama_def py_int_def astype_int_def)

lemma total_tres: "sum_skipna (map (PONDERA \<circ> fst) (ocupados_de (\<lambda>s. None) tres None 18 31 2024)) = 3"
  unfolding ocupados_de_def ocupados_rama_tres
  by (simp add: key2_def ocupado_rama_def sum_skipna_def present_def List.map_filter_def)

lemma participacion_tres: "map PART_RAMA (filas_de 31 2024 (participacion_empleo_por_rama (\<lambda>s. None) tres None 18))
   = [Some (1 / 3), Some (1 / 3)]"
  unfolding participacion_unfold ocupados_rama_tres
  by code_simp


lemma ramas_tres:
  "map RAMA (filas_de 31 2024 (participacion_empleo_por_rama (\<lambda>s. None) tres None 18))
   = [''Industria'', ''Turismo'']"
  unfolding participacion_unfold ocupados_rama_tres
  by code_simp

theorem participacion_cierre_witness:
  "no_negativo (PONDERA (ocupado_rama 2000))
   \<and> sum_skipna (map (PONDERA \<circ> fst) (ocupados_de (\<lambda>s. None) tres None 18 31 2024)) = 3
   \<and> (ocupado_rama 9999, None) \<in> set (ocupados_de (\<lambda>s. None) tres None 18 31 2024)
   \<and> map RAMA (filas_de 31 2024 (participacion_empleo_por_rama (\<lambda>s. None) tres None 18))
        = [''Industria'', ''Turismo'']
   \<and> map PART_RAMA (filas_de 31 2024 (participacion_empleo_por_rama (\<lambda>s. None) tres None 18))
        = [Some (1 / 3), Some (1 / 3)]"
proof -
  have nn: "\<forall>r \<in> set tres. no_negativo (PONDERA r)"
    by (simp add: tres_def ocupado_rama_def no_negativo_def)
  have nz: "sum_skipna (map (PONDERA \<circ> fst) (ocupados_de (\<lambda>s. None) tres None 18 31 2024)) \<noteq> 0"
    by (simp add: total_tres)
  have m: "(ocupado_rama 9999, None) \<in> set (ocupados_de (\<lambda>s. None) tres None 18 31 2024)"
    unfolding ocupados_de_def ocupados_rama_tres
    by (simp add: key2_def ocupado_rama_def)
  show ?thesis
    using participacion_cierre [OF nn nz] m
    by (simp add: total_tres participacion_tres ramas_tres ocupado_rama_def no_negativo_def)
qed

text \<open>
  C8 as it is stated fails on a weight below zero: an Industry record of weight 2 and an
  unclassified record of weight -1, both employed in one region and year, give the
  total 1 and the Industry share 2.
\<close>

lemma ocupados_rama_peso_negativo:
  "ocupados_rama (\<lambda>s. None) peso_negativo None 18 =
     [(ocupado_peso 2000 2, Some ''Industria''), (ocupado_peso 9999 (- 1), None)]"
  by (simp add: ocupados_rama_def peso_negativo_def agregar_columna_rama_def
      filtrar_aglomerados_def ocupado_peso_def ge_num_def eq_num_def clasificar_rama_def
      py_int_def astype_int_def)

lemma total_peso_negativo:
  "sum_skipna (map (PONDERA \<circ> fst) (ocupados_de (\<lambda>s. None) peso_negativo None 18 31 2024)) = 1"
  unfolding ocupados_de_def ocupados_rama_peso_negativo
  by (simp add: key2_def ocupado_peso_def sum_skipna_def present_def List.map_filter_def)

lemma ramas_peso_negativo:
  "map RAMA (filas_de 31 2024 (participacion_empleo_por_rama (\<lambda>s. None) peso_negativo None 18))
   = [''Industria'']"
  unfolding participacion_unfold ocupados_rama_peso_negativo
  by code_simp

lemma participacion_peso_negativo:
  "map PART_RAMA (filas_de 31 2024 (participacion_empleo_por_rama (\<lambda>s. None) peso_negativo None 18))
   = [Some 2]"
  unfolding participacion_unfold ocupados_rama_peso_negativo
  by code_simp

theorem participacion_cierre_counterexample:
  "PONDERA (ocupado_peso 9999 (- 1)) = Some (- 1)
   \<and> sum_skipna (map (PONDERA \<circ> fst) (ocupados_de (\<lambda>s. None) peso_negativo None 18 31 2024)) = 1
   \<and> map RAMA (filas_de 31 2024 (participacion_empleo_por_rama (\<lambda>s. None) peso_negativo None 18))
        = [''Industria'']
   \<and> map PART_RAMA (filas_de 31 2024 (participacion_empleo_por_rama (\<lambda>s. None) peso_negativo None 18))
        = [Some 2]"
  by (simp add: total_peso_negativo ramas_peso_negativo participacion_peso_negativo
      ocupado_peso_def)

end
